theory Spec2Isabelle
  imports
    Main
    "HOL-Library.Sublist"
    "HOL-Library.Char_ord"
    "HOL-Library.List_Lexorder"
    "HOL-Library.Product_Lexorder"
begin

section \<open>Strings\<close>

text \<open>
  Python strings are modelled as HOL strings; a character stands for the code point of
  the same number (0 to 255).  \<open>p in s\<close> is \<^const>\<open>sublist\<close>, \<open>s.startswith(p)\<close> is
  \<^const>\<open>prefix\<close>.
\<close>

type_synonym path = string

definition squote :: string where
  "squote = [CHR 0x27]"

definition dquote :: char where
  "dquote = CHR 0x22"

definition backslash :: char where
  "backslash = CHR 0x5C"

text \<open>\<open>str.lower()\<close> on code points below 256: the upper-case letters A to Z and the
  Latin-1 capitals (all of 0xC0 to 0xDE but the multiplication sign 0xD7) move up by 32.\<close>

definition lower_char :: "char \<Rightarrow> char" where
  "lower_char c =
     (let n = (of_char c :: nat) in
      if (65 \<le> n \<and> n \<le> 90) \<or> (192 \<le> n \<and> n \<le> 222 \<and> n \<noteq> 215)
      then char_of (n + 32) else c)"

definition lower :: "string \<Rightarrow> string" where
  "lower s = map lower_char s"

text \<open>\<open>s.split(sep)\<close> for a one-character separator: never the empty list.\<close>

fun split_on :: "char \<Rightarrow> string \<Rightarrow> string \<Rightarrow> string list" where
  "split_on sep cur [] = [rev cur]"
| "split_on sep cur (c # cs) =
     (if c = sep then rev cur # split_on sep [] cs else split_on sep (c # cur) cs)"

definition str_split :: "string \<Rightarrow> char \<Rightarrow> string list" where
  "str_split s sep = split_on sep [] s"

text \<open>\<open>str(n)\<close> for an integer, and \<open>oct(n)\<close>: the digits from the last one to the first.\<close>

definition digit_char :: "nat \<Rightarrow> char" where
  "digit_char d = ''0123456789'' ! d"

function digits_of :: "nat \<Rightarrow> nat \<Rightarrow> string \<Rightarrow> string" where
  "digits_of b n acc =
     (if b < 2 \<or> n < b then digit_char n # acc
      else digits_of b (n div b) (digit_char (n mod b) # acc))"
  by pat_completeness auto
termination
  by (relation "measure (\<lambda>(b, n, acc). n)") auto

declare digits_of.simps [simp del]

definition str_nat :: "nat \<Rightarrow> string" where
  "str_nat n = digits_of 10 n []"

definition str_int :: "int \<Rightarrow> string" where
  "str_int i = (if i < 0 then CHR ''-'' # str_nat (nat (- i)) else str_nat (nat i))"

section \<open>Exceptions\<close>

text \<open>A raised exception is a value; \<open>str(e)\<close> is its message.  A function returns
  \<open>Inl e\<close> when \<open>e\<close> escapes to its caller.\<close>

datatype py_exn =
    ValueError string
  | RuntimeError string
  | FileExistsError string
  | FileNotFoundError string
  | NotADirectoryError string
  | IsADirectoryError string
  | PermissionError string
  | LookupError string

fun str_exn :: "py_exn \<Rightarrow> string" where
  "str_exn (ValueError m) = m"
| "str_exn (RuntimeError m) = m"
| "str_exn (FileExistsError m) = m"
| "str_exn (FileNotFoundError m) = m"
| "str_exn (NotADirectoryError m) = m"
| "str_exn (IsADirectoryError m) = m"
| "str_exn (PermissionError m) = m"
| "str_exn (LookupError m) = m"

section \<open>The tokenizer: \<open>shlex.split\<close>\<close>

text \<open>
  \<open>shlex.split(command)\<close> runs the standard library's lexer in POSIX mode with
  \<open>whitespace_split\<close> set and no comment characters.  The lexer is a state machine over
  the characters: state \<open>' '\<close> (between tokens), \<open>'a'\<close> (in a word), a quote character
  (inside quotes) and the escape character (after a backslash), with \<open>escapedstate\<close> the
  state to go back to after the escaped character.  End of input inside quotes or after
  a backslash raises \<open>ValueError\<close>.
\<close>

datatype lex_state = In_space | In_word | In_quote char | In_escape

definition is_whitespace :: "char \<Rightarrow> bool" where
  "is_whitespace c = (c = CHR '' '' \<or> c = CHR 0x09 \<or> c = CHR 0x0D \<or> c = CHR 0x0A)"

definition is_quote :: "char \<Rightarrow> bool" where
  "is_quote c = (c = CHR 0x27 \<or> c = dquote)"

text \<open>The arguments are the lexer's \<open>state\<close>, \<open>escapedstate\<close>, \<open>quoted\<close> and \<open>token\<close>
  (kept reversed), and the characters still to read.  A token is emitted where
  \<open>read_token\<close> breaks out of its loop; the next call starts with \<open>quoted\<close> false and an
  empty token, and keeps the state.\<close>

fun lex :: "lex_state \<Rightarrow> lex_state \<Rightarrow> bool \<Rightarrow> string \<Rightarrow> string \<Rightarrow> py_exn + string list" where
  "lex In_space esc quoted tok [] = Inr []"
| "lex In_word esc quoted tok [] =
     (if \<not> quoted \<and> tok = [] then Inr [] else Inr [rev tok])"
| "lex (In_quote q) esc quoted tok [] = Inl (ValueError ''No closing quotation'')"
| "lex In_escape esc quoted tok [] = Inl (ValueError ''No escaped character'')"
| "lex In_space esc quoted tok (c # cs) =
     (if is_whitespace c then
        (if tok \<noteq> [] \<or> quoted
         then (case lex In_space In_space False [] cs of
                 Inl e \<Rightarrow> Inl e | Inr ts \<Rightarrow> Inr (rev tok # ts))
         else lex In_space esc quoted tok cs)
      else if c = backslash then lex In_escape In_word quoted tok cs
      else if is_quote c then lex (In_quote c) esc quoted tok cs
      else lex In_word esc quoted [c] cs)"
| "lex (In_quote q) esc quoted tok (c # cs) =
     (if c = q then lex In_word esc True tok cs
      else if c = backslash \<and> q = dquote then lex In_escape (In_quote q) True tok cs
      else lex (In_quote q) esc True (c # tok) cs)"
| "lex In_escape esc quoted tok (c # cs) =
     (case esc of
        In_quote q \<Rightarrow>
          (if c \<noteq> backslash \<and> c \<noteq> q
           then lex esc esc quoted (c # backslash # tok) cs
           else lex esc esc quoted (c # tok) cs)
      | _ \<Rightarrow> lex esc esc quoted (c # tok) cs)"
| "lex In_word esc quoted tok (c # cs) =
     (if is_whitespace c then
        (if tok \<noteq> [] \<or> quoted
         then (case lex In_space In_space False [] cs of
                 Inl e \<Rightarrow> Inl e | Inr ts \<Rightarrow> Inr (rev tok # ts))
         else lex In_space esc quoted tok cs)
      else if is_quote c then lex (In_quote c) esc quoted tok cs
      else if c = backslash then lex In_escape In_word quoted tok cs
      else lex In_word esc quoted (c # tok) cs)"

definition shlex_split :: "string \<Rightarrow> py_exn + string list" where
  "shlex_split s = lex In_space In_space False [] s"

section \<open>The two tool servers\<close>

text \<open>
  The repository holds two classes named \<open>ToolServer\<close>: the full one
  (\<open>scr/tool_server.py\<close>), whose functions keep their names here, and a simplified one
  (\<open>src/tool_server.py\<close>), whose functions carry the prefix \<open>simple_\<close>.
  A record holds the attributes set by \<open>__init__\<close>; \<open>workspace_dir\<close> holds
  \<open>str(self.workspace_dir)\<close>.
\<close>

record tool_server =
  workspace_dir :: path
  allowed_commands :: "string list"
  restricted_paths :: "string list"
  timeout :: int
  max_file_size :: nat

definition default_allowed_commands :: "string list" where
  "default_allowed_commands =
     [''ls'', ''cd'', ''pwd'', ''cat'', ''grep'', ''find'', ''mkdir'', ''touch'',
      ''cp'', ''mv'', ''rm'', ''chmod'', ''chown'', ''python'', ''python3'',
      ''pip'', ''git'', ''docker'', ''npm'', ''node'', ''echo'', ''curl'', ''wget'',
      ''ssh'', ''scp'', ''rsync'', ''tar'', ''zip'', ''unzip'', ''df'', ''du'',
      ''head'', ''tail'', ''wc'', ''sort'', ''uniq'', ''diff'', ''patch'']"

definition default_restricted_paths :: "string list" where
  "default_restricted_paths =
     [''/etc'', ''/root'', ''/boot'', ''/proc'', ''/sys'',
      ''/var/lib'', ''/usr/lib'', ''/lib'', ''/bin'', ''/sbin'']"

text \<open>\<open>allowed_commands or [...]\<close>: \<open>None\<close> and the empty list both give the default.\<close>

definition ToolServer :: "path \<Rightarrow> string list option \<Rightarrow> int \<Rightarrow> tool_server" where
  "ToolServer ws allowed t =
     \<lparr> workspace_dir = ws,
       allowed_commands =
         (case allowed of None \<Rightarrow> default_allowed_commands
          | Some l \<Rightarrow> if l = [] then default_allowed_commands else l),
       restricted_paths = default_restricted_paths,
       timeout = t,
       max_file_size = 10 * 1024 * 1024 \<rparr>"

record simple_server =
  s_workspace_dir :: path
  s_allowed_commands :: "string list"
  s_timeout :: int

definition simple_default_allowed_commands :: "string list" where
  "simple_default_allowed_commands =
     [''ls'', ''cd'', ''pwd'', ''cat'', ''grep'', ''find'', ''mkdir'', ''touch'',
      ''cp'', ''mv'', ''rm'', ''chmod'', ''chown'', ''python'', ''python3'',
      ''pip'', ''git'', ''docker'', ''npm'', ''node'', ''echo'', ''curl'', ''wget'']"

definition SimpleToolServer :: "path \<Rightarrow> string list option \<Rightarrow> int \<Rightarrow> simple_server" where
  "SimpleToolServer ws allowed t =
     \<lparr> s_workspace_dir = ws,
       s_allowed_commands =
         (case allowed of None \<Rightarrow> simple_default_allowed_commands
          | Some l \<Rightarrow> if l = [] then simple_default_allowed_commands else l),
       s_timeout = t \<rparr>"

section \<open>The command guard\<close>

definition dangerous_patterns :: "string list" where
  "dangerous_patterns =
     [''rm -rf /'', ''mkfs'', ''dd'', ''> /dev/sda'', ''chmod 777 /'',
      '':(){ :|:& };:'', ''fork()'', ''exec('', ''system('',
      ''shutdown'', ''reboot'', ''halt'', ''poweroff'']"

definition simple_dangerous_patterns :: "string list" where
  "simple_dangerous_patterns =
     [''rm -rf /'', ''mkfs'', ''dd'', ''> /dev/sda'',
      '':(){ :|:& };:'', ''chmod 777 /'']"

text \<open>\<open>parts[0].split('/')[-1]\<close>: what follows the last slash of the first token.\<close>

definition base_cmd_of :: "string \<Rightarrow> string" where
  "base_cmd_of tok = last (str_split tok CHR ''/'')"

text \<open>The \<open>for pattern in dangerous_patterns\<close> loop returns at the first pattern, in list
  order, that the lower-cased command contains: \<^const>\<open>find\<close>.\<close>

definition is_safe_command :: "tool_server \<Rightarrow> string \<Rightarrow> bool \<times> string" where
  "is_safe_command ts command =
     (case shlex_split command of
        Inl e \<Rightarrow> (False, ''Command parsing error: '' @ str_exn e)
      | Inr parts \<Rightarrow>
          (case parts of
             [] \<Rightarrow> (False, ''Empty command'')
           | tok # _ \<Rightarrow>
               (let base_cmd = base_cmd_of tok in
                if base_cmd \<notin> set (allowed_commands ts)
                then (False, ''Command '' @ squote @ base_cmd @ squote @ '' not in allowed list'')
                else
                  (case find (\<lambda>pattern. sublist pattern (lower command)) dangerous_patterns of
                     Some pattern \<Rightarrow> (False, ''Command contains dangerous pattern: '' @ pattern)
                   | None \<Rightarrow>
                       if sublist ''..'' command \<and>
                          list_ex (\<lambda>x. sublist x command) [''/etc'', ''/root'', ''/boot'']
                       then (False, ''Path traversal attempt detected'')
                       else (True, ''OK'')))))"

definition simple_is_safe_command :: "simple_server \<Rightarrow> string \<Rightarrow> bool" where
  "simple_is_safe_command ts command =
     (case shlex_split command of
        Inl e \<Rightarrow> False
      | Inr parts \<Rightarrow>
          (case parts of
             [] \<Rightarrow> False
           | tok # _ \<Rightarrow>
               (let base_cmd = base_cmd_of tok in
                if base_cmd \<notin> set (s_allowed_commands ts) then False
                else
                  (case find (\<lambda>pattern. sublist pattern (lower command))
                          simple_dangerous_patterns of
                     Some pattern \<Rightarrow> False
                   | None \<Rightarrow> True))))"

section \<open>The file system\<close>

text \<open>
  The world the tool server runs in.  Files and directories are held by canonical path;
  \<open>resolve\<close> is \<open>Path(p).resolve()\<close>, which the operating system also applies when it is
  handed a path.  What the code cannot decide is a field of the world: the paths on
  which a system call fails with \<open>EACCES\<close> (\<open>denied\<close>), the codec names Python knows,
  the order and the names \<open>iterdir\<close> yields, and the times, modes and directory sizes
  \<open>stat\<close> reports.  \<open>spawned\<close> logs every call of \<open>subprocess.run\<close>.  File contents are
  text that the codecs decode; time stamps are integers.
\<close>

record world =
  resolve :: "path \<Rightarrow> py_exn + path"
  files :: "path \<rightharpoonup> string"
  dirs :: "path set"
  denied :: "path set"
  codecs :: "string set"
  listing :: "path \<Rightarrow> string list"
  mtime :: "path \<Rightarrow> int"
  mode :: "path \<Rightarrow> nat"
  dir_size :: "path \<Rightarrow> nat"
  spawned :: "(string \<times> path) list"

record stat_result =
  st_size :: nat
  st_mtime :: int
  st_mode :: nat

definition errno_msg :: "string \<Rightarrow> path \<Rightarrow> string" where
  "errno_msg m c = m @ '': '' @ squote @ c @ squote"

definition EEXIST :: "path \<Rightarrow> py_exn" where
  "EEXIST c = FileExistsError (errno_msg ''[Errno 17] File exists'' c)"

definition ENOENT :: "path \<Rightarrow> py_exn" where
  "ENOENT c = FileNotFoundError (errno_msg ''[Errno 2] No such file or directory'' c)"

definition ENOTDIR :: "path \<Rightarrow> py_exn" where
  "ENOTDIR c = NotADirectoryError (errno_msg ''[Errno 20] Not a directory'' c)"

definition EISDIR :: "path \<Rightarrow> py_exn" where
  "EISDIR c = IsADirectoryError (errno_msg ''[Errno 21] Is a directory'' c)"

definition EACCES :: "path \<Rightarrow> py_exn" where
  "EACCES c = PermissionError (errno_msg ''[Errno 13] Permission denied'' c)"

text \<open>\<open>PurePath.parent\<close> on a canonical path: the root is its own parent.\<close>

definition parent_of :: "path \<Rightarrow> path" where
  "parent_of p =
     (let d = rev (drop 1 (dropWhile (\<lambda>c. c \<noteq> CHR ''/'') (rev p)))
      in if d = [] \<and> prefix ''/'' p then ''/'' else d)"

text \<open>\<open>d / name\<close>.\<close>

definition path_join :: "path \<Rightarrow> string \<Rightarrow> path" where
  "path_join d n = (if d = ''/'' then d @ n else d @ ''/'' @ n)"

subsection \<open>System calls on canonical paths\<close>

definition c_exists :: "world \<Rightarrow> path \<Rightarrow> bool" where
  "c_exists w c = (c \<in> dirs w \<or> files w c \<noteq> None)"

definition c_is_dir :: "world \<Rightarrow> path \<Rightarrow> bool" where
  "c_is_dir w c = (c \<in> dirs w)"

definition c_is_file :: "world \<Rightarrow> path \<Rightarrow> bool" where
  "c_is_file w c = (files w c \<noteq> None)"

definition c_stat :: "world \<Rightarrow> path \<Rightarrow> py_exn + stat_result" where
  "c_stat w c =
     (if c \<in> denied w then Inl (EACCES c)
      else case files w c of
        Some b \<Rightarrow> Inr \<lparr> st_size = length b, st_mtime = mtime w c, st_mode = mode w c \<rparr>
      | None \<Rightarrow>
          if c \<in> dirs w
          then Inr \<lparr> st_size = dir_size w c, st_mtime = mtime w c, st_mode = mode w c \<rparr>
          else Inl (ENOENT c))"

text \<open>\<open>os.mkdir\<close>: one directory, whose parent must be a directory.\<close>

definition os_mkdir :: "world \<Rightarrow> path \<Rightarrow> py_exn + world" where
  "os_mkdir w c =
     (if c \<in> dirs w \<or> files w c \<noteq> None then Inl (EEXIST c)
      else if files w (parent_of c) \<noteq> None then Inl (ENOTDIR c)
      else if parent_of c \<notin> dirs w then Inl (ENOENT c)
      else if parent_of c \<in> denied w then Inl (EACCES c)
      else Inr (w\<lparr>dirs := insert c (dirs w)\<rparr>))"

lemma parent_of_shorter: "parent_of c \<noteq> c \<Longrightarrow> length (parent_of c) < length c"
proof -
  assume neq: "parent_of c \<noteq> c"
  let ?r = "dropWhile (\<lambda>x. x \<noteq> CHR ''/'') (rev c)"
  have le: "length ?r \<le> length c"
    using length_dropWhile_le [of "\<lambda>x. x \<noteq> CHR ''/''" "rev c"] by simp
  show ?thesis
  proof (cases "drop 1 ?r = []")
    case True
    show ?thesis
    proof (cases "prefix ''/'' c")
      case True
      then obtain t where c: "c = CHR ''/'' # t" by (auto simp: prefix_def)
      with neq \<open>drop 1 ?r = []\<close> have "t \<noteq> []" by (auto simp: parent_of_def)
      with c \<open>drop 1 ?r = []\<close> show ?thesis by (simp add: parent_of_def)
    next
      case False
      with \<open>drop 1 ?r = []\<close> have p: "parent_of c = []" by (simp add: parent_of_def)
      with neq have "c \<noteq> []" by auto
      with p show ?thesis by simp
    qed
  next
    case False
    have r: "?r \<noteq> []"
    proof
      assume "?r = []"
      then have "drop 1 ?r = []" by (simp only: drop_Nil)
      with False show False by (rule notE)
    qed
    from False have d: "parent_of c = rev (drop 1 ?r)"
      by (simp add: parent_of_def Let_def)
    have "length (parent_of c) = length ?r - 1"
      unfolding d by simp
    moreover from r have "0 < length ?r"
      by simp
    ultimately show ?thesis
      using le by linarith
  qed
qed

text \<open>\<open>Path.mkdir(parents=True, exist_ok=True)\<close>: on \<open>FileNotFoundError\<close> the parent is made
  first and the directory is tried again; any other \<open>OSError\<close> is swallowed only when the
  path is a directory already.  The result is the exception raised, if any, and the
  world with the directories made so far.\<close>

definition mkdir_exist_ok :: "world \<Rightarrow> path \<Rightarrow> py_exn option \<times> world" where
  "mkdir_exist_ok w c =
     (case os_mkdir w c of
        Inr w' \<Rightarrow> (None, w')
      | Inl (FileNotFoundError m) \<Rightarrow> (Some (FileNotFoundError m), w)
      | Inl e \<Rightarrow> if c_is_dir w c then (None, w) else (Some e, w))"

function mkdir_parents :: "world \<Rightarrow> path \<Rightarrow> py_exn option \<times> world" where
  "mkdir_parents w c =
     (case os_mkdir w c of
        Inr w' \<Rightarrow> (None, w')
      | Inl (FileNotFoundError m) \<Rightarrow>
          if parent_of c = c then (Some (FileNotFoundError m), w)
          else (case mkdir_parents w (parent_of c) of
                  (Some e, w') \<Rightarrow> (Some e, w')
                | (None, w') \<Rightarrow> mkdir_exist_ok w' c)
      | Inl e \<Rightarrow> if c_is_dir w c then (None, w) else (Some e, w))"
  by pat_completeness auto
termination
  by (relation "measure (\<lambda>(w, c). length c)") (auto simp: parent_of_shorter)

declare mkdir_parents.simps [simp del]

text \<open>Opening a file for writing creates or truncates it before the codec is looked up,
  so an unknown encoding leaves an empty file.  No encoding is the default one.\<close>

definition c_open_w :: "world \<Rightarrow> path \<Rightarrow> py_exn + world" where
  "c_open_w w c =
     (if c \<in> dirs w then Inl (EISDIR c)
      else if files w (parent_of c) \<noteq> None then Inl (ENOTDIR c)
      else if parent_of c \<notin> dirs w then Inl (ENOENT c)
      else if c \<in> denied w \<or> (files w c = None \<and> parent_of c \<in> denied w)
      then Inl (EACCES c)
      else Inr (w\<lparr>files := (files w)(c \<mapsto> [])\<rparr>))"

definition codec_known :: "world \<Rightarrow> string option \<Rightarrow> bool" where
  "codec_known w enc = (case enc of None \<Rightarrow> True | Some n \<Rightarrow> n \<in> codecs w)"

definition unknown_encoding :: "string option \<Rightarrow> py_exn" where
  "unknown_encoding enc = LookupError (''unknown encoding: '' @ (case enc of None \<Rightarrow> [] | Some n \<Rightarrow> n))"

definition c_write_text :: "world \<Rightarrow> path \<Rightarrow> string \<Rightarrow> string option \<Rightarrow> py_exn option \<times> world" where
  "c_write_text w c content enc =
     (case c_open_w w c of
        Inl e \<Rightarrow> (Some e, w)
      | Inr w' \<Rightarrow>
          if \<not> codec_known w enc then (Some (unknown_encoding enc), w')
          else (None, w'\<lparr>files := (files w')(c \<mapsto> content)\<rparr>))"

definition c_write_bytes :: "world \<Rightarrow> path \<Rightarrow> string \<Rightarrow> py_exn option \<times> world" where
  "c_write_bytes w c content =
     (case c_open_w w c of
        Inl e \<Rightarrow> (Some e, w)
      | Inr w' \<Rightarrow> (None, w'\<lparr>files := (files w')(c \<mapsto> content)\<rparr>))"

definition c_read_bytes :: "world \<Rightarrow> path \<Rightarrow> py_exn + string" where
  "c_read_bytes w c =
     (if c \<in> dirs w then Inl (EISDIR c)
      else case files w c of
        None \<Rightarrow> Inl (ENOENT c)
      | Some b \<Rightarrow> if c \<in> denied w then Inl (EACCES c) else Inr b)"

definition c_read_text :: "world \<Rightarrow> path \<Rightarrow> string option \<Rightarrow> py_exn + string" where
  "c_read_text w c enc =
     (case c_read_bytes w c of
        Inl e \<Rightarrow> Inl e
      | Inr b \<Rightarrow> if codec_known w enc then Inr b else Inl (unknown_encoding enc))"

definition c_iterdir :: "world \<Rightarrow> path \<Rightarrow> py_exn + string list" where
  "c_iterdir w c =
     (if files w c \<noteq> None then Inl (ENOTDIR c)
      else if c \<notin> dirs w then Inl (ENOENT c)
      else if c \<in> denied w then Inl (EACCES c)
      else Inr (listing w c))"

subsection \<open>The same calls on a \<open>Path\<close> object\<close>

text \<open>\<open>exists\<close>, \<open>is_dir\<close> and \<open>is_file\<close> answer \<open>False\<close> where the path cannot be
  followed; the other calls raise.\<close>

definition path_exists :: "world \<Rightarrow> path \<Rightarrow> bool" where
  "path_exists w p = (case resolve w p of Inl e \<Rightarrow> False | Inr c \<Rightarrow> c_exists w c)"

definition path_is_dir :: "world \<Rightarrow> path \<Rightarrow> bool" where
  "path_is_dir w p = (case resolve w p of Inl e \<Rightarrow> False | Inr c \<Rightarrow> c_is_dir w c)"

definition path_is_file :: "world \<Rightarrow> path \<Rightarrow> bool" where
  "path_is_file w p = (case resolve w p of Inl e \<Rightarrow> False | Inr c \<Rightarrow> c_is_file w c)"

definition path_stat :: "world \<Rightarrow> path \<Rightarrow> py_exn + stat_result" where
  "path_stat w p = (case resolve w p of Inl e \<Rightarrow> Inl e | Inr c \<Rightarrow> c_stat w c)"

definition path_mkdir :: "world \<Rightarrow> path \<Rightarrow> py_exn option \<times> world" where
  "path_mkdir w p = (case resolve w p of Inl e \<Rightarrow> (Some e, w) | Inr c \<Rightarrow> mkdir_parents w c)"

definition path_parent_mkdir :: "world \<Rightarrow> path \<Rightarrow> py_exn option \<times> world" where
  "path_parent_mkdir w p =
     (case resolve w p of Inl e \<Rightarrow> (Some e, w) | Inr c \<Rightarrow> mkdir_parents w (parent_of c))"

definition path_read_text :: "world \<Rightarrow> path \<Rightarrow> string option \<Rightarrow> py_exn + string" where
  "path_read_text w p enc = (case resolve w p of Inl e \<Rightarrow> Inl e | Inr c \<Rightarrow> c_read_text w c enc)"

definition path_read_bytes :: "world \<Rightarrow> path \<Rightarrow> py_exn + string" where
  "path_read_bytes w p = (case resolve w p of Inl e \<Rightarrow> Inl e | Inr c \<Rightarrow> c_read_bytes w c)"

definition path_iterdir :: "world \<Rightarrow> path \<Rightarrow> py_exn + string list" where
  "path_iterdir w p = (case resolve w p of Inl e \<Rightarrow> Inl e | Inr c \<Rightarrow> c_iterdir w c)"

text \<open>The content handed to \<open>write_file\<close> is a \<open>str\<close> or, by the \<open>isinstance\<close> test, bytes.\<close>

datatype content = Str string | Bytes string

fun content_len :: "content \<Rightarrow> nat" where
  "content_len (Str s) = length s"
| "content_len (Bytes b) = length b"

definition path_write :: "world \<Rightarrow> path \<Rightarrow> content \<Rightarrow> string option \<Rightarrow> py_exn option \<times> world" where
  "path_write w p content enc =
     (case resolve w p of
        Inl e \<Rightarrow> (Some e, w)
      | Inr c \<Rightarrow>
          (case content of
             Str s \<Rightarrow> c_write_text w c s enc
           | Bytes b \<Rightarrow> c_write_bytes w c b))"

text \<open>\<open>p.relative_to(base)\<close>, on path strings in normal form.\<close>

definition relative_to :: "path \<Rightarrow> path \<Rightarrow> py_exn + path" where
  "relative_to p base =
     (if p = base then Inr ''.''
      else if prefix (path_join base []) p then Inr (drop (length (path_join base [])) p)
      else Inl (ValueError (squote @ p @ squote @ '' is not in the subpath of '' @
                            squote @ base @ squote)))"

section \<open>The path guard\<close>

definition is_safe_path :: "tool_server \<Rightarrow> world \<Rightarrow> path \<Rightarrow> bool \<times> string" where
  "is_safe_path ts w path =
     (case resolve w path of
        Inl e \<Rightarrow> (False, ''Path validation error: '' @ str_exn e)
      | Inr resolved \<Rightarrow>
          (case find (\<lambda>restricted. prefix restricted resolved) (restricted_paths ts) of
             Some restricted \<Rightarrow> (False, ''Path is in restricted area: '' @ restricted)
           | None \<Rightarrow>
               if sublist ''..'' resolved \<and> \<not> prefix (workspace_dir ts) resolved
               then (False, ''Path traversal outside workspace'')
               else if \<not> prefix (workspace_dir ts) resolved
               then (False, ''Can only write to workspace'')
               else (True, ''OK'')))"

section \<open>Running a command\<close>

text \<open>
  \<open>subprocess.run\<close> is a parameter: given the world, the command, the working directory
  and the timeout it says how the process ended and what world it left.  The result
  dictionary of \<open>execute\<close> is a record; \<open>working_dir\<close> is \<open>None\<close> where the key is absent,
  and the wall-clock \<open>execution_time\<close> is left out.
\<close>

datatype proc_outcome = Completed int string string | TimeoutExpired | Failed py_exn

type_synonym runner = "world \<Rightarrow> string \<Rightarrow> path \<Rightarrow> int \<Rightarrow> proc_outcome \<times> world"

record exec_result =
  success :: bool
  stdout :: string
  stderr :: string
  return_code :: int
  working_dir :: "string option"

definition subprocess_run :: "runner \<Rightarrow> world \<Rightarrow> string \<Rightarrow> path \<Rightarrow> int \<Rightarrow> proc_outcome \<times> world" where
  "subprocess_run run w command cwd t =
     (case run w command cwd t of
        (outcome, w') \<Rightarrow> (outcome, w'\<lparr>spawned := spawned w @ [(command, cwd)]\<rparr>))"

text \<open>\<open>timeout or self.timeout\<close>.\<close>

definition timeout_or :: "int option \<Rightarrow> int \<Rightarrow> int" where
  "timeout_or t d = (case t of None \<Rightarrow> d | Some n \<Rightarrow> if n = 0 then d else n)"

text \<open>The \<open>try\<close> block of \<open>execute\<close>.\<close>

definition run_command ::
  "tool_server \<Rightarrow> runner \<Rightarrow> world \<Rightarrow> string \<Rightarrow> path \<Rightarrow> int option \<Rightarrow> exec_result \<times> world" where
  "run_command ts run w command cwd timeout_arg =
     (case subprocess_run run w command cwd (timeout_or timeout_arg (timeout ts)) of
        (Completed rc out err, w') \<Rightarrow>
          (\<lparr> success = (rc = 0), stdout = out, stderr = err, return_code = rc,
             working_dir = Some cwd \<rparr>, w')
      | (TimeoutExpired, w') \<Rightarrow>
          (\<lparr> success = False, stdout = [],
             stderr = ''Command timed out after '' @
                      str_int (timeout_or timeout_arg (timeout ts)) @ '' seconds'',
             return_code = - 1, working_dir = None \<rparr>, w')
      | (Failed e, w') \<Rightarrow>
          (\<lparr> success = False, stdout = [], stderr = ''Execution error: '' @ str_exn e,
             return_code = - 1, working_dir = None \<rparr>, w'))"

text \<open>\<open>if working_dir:\<close> holds for a string that is not empty.  \<open>cwd.mkdir\<close> stands
  before the \<open>try\<close>: what it raises leaves \<open>execute\<close>.\<close>

definition execute ::
  "tool_server \<Rightarrow> runner \<Rightarrow> world \<Rightarrow> string \<Rightarrow> path option \<Rightarrow> int option \<Rightarrow>
   (py_exn + exec_result) \<times> world" where
  "execute ts run w command wd timeout_arg =
     (case is_safe_command ts command of
        (False, message) \<Rightarrow>
          (Inr \<lparr> success = False, stdout = [], stderr = ''Security violation: '' @ message,
                 return_code = 1, working_dir = None \<rparr>, w)
      | (True, message) \<Rightarrow>
          (case wd of
             None \<Rightarrow>
               (case run_command ts run w command (workspace_dir ts) timeout_arg of
                  (r, w') \<Rightarrow> (Inr r, w'))
           | Some d \<Rightarrow>
               if d = [] then
                 (case run_command ts run w command (workspace_dir ts) timeout_arg of
                    (r, w') \<Rightarrow> (Inr r, w'))
               else
                 (case is_safe_path ts w d of
                    (True, msg) \<Rightarrow>
                      (case path_mkdir w d of
                         (Some e, w') \<Rightarrow> (Inl e, w')
                       | (None, w') \<Rightarrow>
                           (case run_command ts run w' command d timeout_arg of
                              (r, w'') \<Rightarrow> (Inr r, w'')))
                  | (False, msg) \<Rightarrow>
                      (Inr \<lparr> success = False, stdout = [],
                             stderr = ''Invalid working directory: '' @ msg,
                             return_code = 1, working_dir = None \<rparr>, w))))"

text \<open>The simplified server: the guard gives no reason, the working directory is not
  checked, and \<open>Path(cwd).mkdir\<close> again stands before the \<open>try\<close>.\<close>

definition simple_run_command ::
  "simple_server \<Rightarrow> runner \<Rightarrow> world \<Rightarrow> string \<Rightarrow> path \<Rightarrow> int option \<Rightarrow> exec_result \<times> world" where
  "simple_run_command ts run w command cwd timeout_arg =
     (case subprocess_run run w command cwd (timeout_or timeout_arg (s_timeout ts)) of
        (Completed rc out err, w') \<Rightarrow>
          (\<lparr> success = (rc = 0), stdout = out, stderr = err, return_code = rc,
             working_dir = None \<rparr>, w')
      | (TimeoutExpired, w') \<Rightarrow>
          (\<lparr> success = False, stdout = [],
             stderr = ''Command timed out after '' @
                      str_int (timeout_or timeout_arg (s_timeout ts)) @ ''s'',
             return_code = - 1, working_dir = None \<rparr>, w')
      | (Failed e, w') \<Rightarrow>
          (\<lparr> success = False, stdout = [], stderr = str_exn e,
             return_code = - 1, working_dir = None \<rparr>, w'))"

definition simple_execute ::
  "simple_server \<Rightarrow> runner \<Rightarrow> world \<Rightarrow> string \<Rightarrow> path option \<Rightarrow> int option \<Rightarrow>
   (py_exn + exec_result) \<times> world" where
  "simple_execute ts run w command wd timeout_arg =
     (if \<not> simple_is_safe_command ts command then
        (Inr \<lparr> success = False, stdout = [], stderr = ''Command not allowed'',
               return_code = - 1, working_dir = None \<rparr>, w)
      else
        (let cwd = (case wd of None \<Rightarrow> s_workspace_dir ts
                    | Some d \<Rightarrow> if d = [] then s_workspace_dir ts else d)
         in case path_mkdir w cwd of
              (Some e, w') \<Rightarrow> (Inl e, w')
            | (None, w') \<Rightarrow>
                (case simple_run_command ts run w' command cwd timeout_arg of
                   (r, w'') \<Rightarrow> (Inr r, w''))))"

section \<open>File operations of the full server\<close>



datatype write_result =
    Write_error string
  | Write_ok (w_path: path) (w_size: nat) (w_created: bool)

definition write_file ::
  "tool_server \<Rightarrow> world \<Rightarrow> path \<Rightarrow> content \<Rightarrow> string \<Rightarrow> write_result \<times> world" where
  "write_file ts w path content encoding =
     (case is_safe_path ts w path of
        (False, message) \<Rightarrow> (Write_error message, w)
      | (True, message) \<Rightarrow>
          (case path_parent_mkdir w path of
             (Some e, w1) \<Rightarrow> (Write_error (str_exn e), w1)
           | (None, w1) \<Rightarrow>
               if content_len content > max_file_size ts
               then (Write_error (''Content too large ('' @ str_nat (content_len content) @
                                  '' > '' @ str_nat (max_file_size ts) @ '')''), w1)
               else
                 (case path_write w1 path content (Some encoding) of
                    (Some e, w2) \<Rightarrow> (Write_error (str_exn e), w2)
                  | (None, w2) \<Rightarrow>
                      (Write_ok path (content_len content) (\<not> path_exists w2 path), w2))))"

record file_entry =
  e_name :: string
  e_type :: string
  e_size :: nat
  e_modified :: int
  e_permissions :: string
  e_path :: string

datatype list_result =
    List_error string
  | List_ok (l_path: path) (l_files: "file_entry list") (l_count: nat)

text \<open>\<open>oct(n)\<close> and \<open>s[-3:]\<close>.\<close>

definition oct_str :: "nat \<Rightarrow> string" where
  "oct_str n = ''0o'' @ digits_of 8 n []"

definition last3 :: "string \<Rightarrow> string" where
  "last3 s = drop (length s - 3) s"

text \<open>The body of the loop over \<open>iterdir()\<close>: \<open>None\<close> where the bare \<open>except\<close> skips the
  item, because \<open>stat\<close> or \<open>relative_to\<close> raised.\<close>

definition entry_of :: "tool_server \<Rightarrow> world \<Rightarrow> path \<Rightarrow> string \<Rightarrow> file_entry option" where
  "entry_of ts w target_dir n =
     (let item = path_join target_dir n in
      case path_stat w item of
        Inl e \<Rightarrow> None
      | Inr st \<Rightarrow>
          (case relative_to item (workspace_dir ts) of
             Inl e \<Rightarrow> None
           | Inr rel \<Rightarrow>
               Some \<lparr> e_name = n,
                      e_type = (if path_is_dir w item then ''directory'' else ''file''),
                      e_size = (if path_is_file w item then st_size st else 0),
                      e_modified = st_mtime st,
                      e_permissions = last3 (oct_str (st_mode st)),
                      e_path = rel \<rparr>))"

text \<open>The key of \<open>sorted\<close>: the pair of \<open>x["type"] == "directory"\<close> and \<open>x["name"]\<close>.  Pairs
  compare component by component, \<open>False\<close> before \<open>True\<close>, strings by code point;
  \<open>sorted\<close> is stable, as \<^const>\<open>sort_key\<close> is.\<close>

definition entry_key :: "file_entry \<Rightarrow> bool \<times> string" where
  "entry_key x = (e_type x = ''directory'', e_name x)"

text \<open>The directory to list: the workspace unless a path is given, which then must pass
  the path guard.\<close>

definition list_target :: "tool_server \<Rightarrow> world \<Rightarrow> path option \<Rightarrow> string + path" where
  "list_target ts w path =
     (case path of
        None \<Rightarrow> Inr (workspace_dir ts)
      | Some p \<Rightarrow>
          if p = [] then Inr (workspace_dir ts)
          else (case is_safe_path ts w p of
                  (False, message) \<Rightarrow> Inl message
                | (True, message) \<Rightarrow> Inr p))"

definition list_directory :: "tool_server \<Rightarrow> world \<Rightarrow> path option \<Rightarrow> list_result" where
  "list_directory ts w path =
     (case list_target ts w path of
        Inl message \<Rightarrow> List_error message
      | Inr target_dir \<Rightarrow>
          if \<not> path_exists w target_dir then List_error ''Directory not found''
          else if \<not> path_is_dir w target_dir then List_error ''Not a directory''
          else
            (case path_iterdir w target_dir of
               Inl e \<Rightarrow> List_error (str_exn e)
             | Inr names \<Rightarrow>
                 (let files = List.map_filter (entry_of ts w target_dir) names
                  in List_ok target_dir (sort_key entry_key files) (length files))))"

section \<open>File operations of the simplified server\<close>




datatype simple_write_result = SWrite_error string | SWrite_ok path

definition simple_write_file ::
  "simple_server \<Rightarrow> world \<Rightarrow> path \<Rightarrow> string \<Rightarrow> (py_exn + simple_write_result) \<times> world" where
  "simple_write_file ts w path content =
     (case resolve w path of
        Inl e \<Rightarrow> (Inl e, w)
      | Inr safe_path \<Rightarrow>
          (case resolve w (s_workspace_dir ts) of
             Inl e \<Rightarrow> (Inl e, w)
           | Inr root \<Rightarrow>
               if \<not> prefix root safe_path
               then (Inr (SWrite_error ''Can only write to workspace''), w)
               else
                 (case mkdir_parents w (parent_of safe_path) of
                    (Some e, w1) \<Rightarrow> (Inl e, w1)
                  | (None, w1) \<Rightarrow>
                      (case c_write_text w1 safe_path content None of
                         (None, w2) \<Rightarrow> (Inr (SWrite_ok safe_path), w2)
                       | (Some e, w2) \<Rightarrow>
                           (Inr (SWrite_error (''Cannot write file: '' @ str_exn e)), w2)))))"

section \<open>A world to run the code in\<close>

text \<open>A file system without symbolic links, seen from the root directory: resolving a
  path drops empty and \<open>.\<close> components and lets \<open>..\<close> remove the component before it.
  In the example \<open>iterdir\<close> of the workspace yields the name \<open>ghost\<close> of an entry that
  is gone when \<open>stat\<close> is called.\<close>

fun norm_parts :: "string list \<Rightarrow> string list \<Rightarrow> string list" where
  "norm_parts acc [] = rev acc"
| "norm_parts acc (p # ps) =
     (if p = [] \<or> p = ''.'' then norm_parts acc ps
      else if p = ''..'' then norm_parts (tl acc) ps
      else norm_parts (p # acc) ps)"

definition lexical_resolve :: "path \<Rightarrow> py_exn + path" where
  "lexical_resolve p =
     (let ps = norm_parts [] (str_split p CHR ''/'')
      in Inr (if ps = [] then ''/'' else concat (map (\<lambda>q. CHR ''/'' # q) ps)))"

definition example_world :: world where
  "example_world =
     \<lparr> resolve = lexical_resolve,
       files = [''/workspace/notes.txt'' \<mapsto> ''hello'', ''/etc/passwd'' \<mapsto> ''root:x:0:0''],
       dirs = {''/'', ''/workspace'', ''/workspace/docs'', ''/etc''},
       denied = {},
       codecs = {''utf-8''},
       listing = (\<lambda>d. if d = ''/workspace'' then [''docs'', ''ghost'', ''notes.txt''] else []),
       mtime = (\<lambda>c. 0),
       mode = (\<lambda>c. if c = ''/workspace/notes.txt'' then 33188 else 16877),
       dir_size = (\<lambda>c. 4096),
       spawned = [] \<rparr>"

text \<open>A process that prints nothing and ends with status 0.\<close>

definition quiet_runner :: runner where
  "quiet_runner w command cwd t = (Completed 0 [] [], w)"

text \<open>A text one character longer than the full server's \<open>max_file_size\<close>.\<close>

definition big_content :: string where
  "big_content = replicate (10 * 1024 * 1024 + 1) CHR ''a''"

definition default_server :: tool_server where
  "default_server = ToolServer ''/workspace'' None 30"

definition default_simple_server :: simple_server where
  "default_simple_server = SimpleToolServer ''/workspace'' None 30"

section \<open>What the specification means by its words\<close>

text \<open>A command contains a pattern case-insensitively when some substring of it equals
  the pattern once both are lower-cased.\<close>

definition contains_ci :: "string \<Rightarrow> string \<Rightarrow> bool" where
  "contains_ci p s = sublist (lower p) (lower s)"

text \<open>A canonical path is under the workspace root when it is the root or lies in the
  directory subtree below it.\<close>

definition is_under :: "path \<Rightarrow> path \<Rightarrow> bool" where
  "is_under root p = (p = root \<or> prefix (path_join root []) p)"

section \<open>The command guard: properties\<close>

lemmas guard_eval =
  is_safe_command_def simple_is_safe_command_def default_server_def default_simple_server_def
  ToolServer_def SimpleToolServer_def default_allowed_commands_def
  simple_default_allowed_commands_def dangerous_patterns_def simple_dangerous_patterns_def
  shlex_split_def is_whitespace_def is_quote_def backslash_def dquote_def squote_def
  base_cmd_of_def str_split_def sublist_code

lemma contains_ci_iff:
  "contains_ci p s \<longleftrightarrow> (\<exists>u. sublist u s \<and> lower u = lower p)"
  unfolding contains_ci_def lower_def
  by (metis map_mono_sublist sublist_map_rightE)


lemma simple_dangerous_patterns_lower:
  assumes "p \<in> set simple_dangerous_patterns"
  shows "lower p = p"
proof -
  have "list_all (\<lambda>p. lower p = p) simple_dangerous_patterns"
    by code_simp
  with assms show ?thesis
    by (simp add: list_all_iff)
qed


lemma parse_error_rejected:
  "shlex_split command = Inl e \<Longrightarrow>
   is_safe_command ts command = (False, ''Command parsing error: '' @ str_exn e)"
  by (simp add: is_safe_command_def)






text \<open>
  C8.  \<open>git add notes.txt\<close> has an allow-listed base command and runs nothing dangerous,
  yet both guards reject it: the pattern \<open>dd\<close> is a substring of \<open>add\<close>.
\<close>

theorem git_add_rejected:
  "shlex_split ''git add notes.txt'' = Inr [''git'', ''add'', ''notes.txt''] \<and>
   base_cmd_of ''git'' \<in> set (allowed_commands default_server) \<and>
   base_cmd_of ''git'' \<in> set (s_allowed_commands default_simple_server) \<and>
   sublist ''dd'' ''add'' \<and>
   is_safe_command default_server ''git add notes.txt'' =
     (False, ''Command contains dangerous pattern: dd'') \<and>
   \<not> simple_is_safe_command default_simple_server ''git add notes.txt''"
proof -
  have l: "lower ''git add notes.txt'' = ''git add notes.txt''"
    by code_simp
  have a: "shlex_split ''git add notes.txt'' = Inr [''git'', ''add'', ''notes.txt'']"
    by (simp add: guard_eval)
  have b: "base_cmd_of ''git'' \<in> set (allowed_commands default_server)"
    by (simp add: guard_eval)
  have c: "base_cmd_of ''git'' \<in> set (s_allowed_commands default_simple_server)"
    by (simp add: guard_eval)
  have d: "sublist ''dd'' ''add''"
    by (simp add: sublist_code)
  have e: "is_safe_command default_server ''git add notes.txt'' =
             (False, ''Command contains dangerous pattern: dd'')"
    by (simp add: guard_eval l)
  have f: "\<not> simple_is_safe_command default_simple_server ''git add notes.txt''"
    by (simp add: guard_eval l)
  show ?thesis
    by (intro conjI a b c d e f)
qed

section \<open>The file system: what the calls keep\<close>

lemma os_mkdir_keeps:
  assumes "os_mkdir w c = Inr w'"
  shows "resolve w' = resolve w" and "files w' = files w" and "denied w' = denied w"
    and "codecs w' = codecs w" and "spawned w' = spawned w" and "dirs w \<subseteq> dirs w'"
  using assms by (auto simp: os_mkdir_def split: if_splits)

lemma mkdir_exist_ok_keeps:
  assumes "mkdir_exist_ok w c = (r, w')"
  shows "resolve w' = resolve w \<and> files w' = files w \<and> denied w' = denied w \<and>
         codecs w' = codecs w \<and> spawned w' = spawned w"
  using assms os_mkdir_keeps [of w c]
  by (auto simp: mkdir_exist_ok_def split: sum.splits py_exn.splits if_splits)

lemma mkdir_parents_keeps:
  "mkdir_parents w c = (r, w') \<Longrightarrow>
   resolve w' = resolve w \<and> files w' = files w \<and> denied w' = denied w \<and>
   codecs w' = codecs w \<and> spawned w' = spawned w"
proof (induction w c arbitrary: r w' rule: mkdir_parents.induct)
  case (1 w c)
  show ?case
  proof (cases "os_mkdir w c")
    case (Inr w1)
    with "1.prems" have "w' = w1"
      by (simp add: mkdir_parents.simps [of w c])
    with Inr show ?thesis
      using os_mkdir_keeps [of w c w1] by simp
  next
    case (Inl e)
    show ?thesis
    proof (cases "\<exists>m. e = FileNotFoundError m \<and> parent_of c \<noteq> c")
      case True
      then obtain m where e: "e = FileNotFoundError m" and ne: "parent_of c \<noteq> c"
        by blast
      obtain r1 w1 where p: "mkdir_parents w (parent_of c) = (r1, w1)"
        by (cases "mkdir_parents w (parent_of c)")
      from "1.IH" [OF Inl e ne p]
      have k1: "resolve w1 = resolve w \<and> files w1 = files w \<and> denied w1 = denied w \<and>
                codecs w1 = codecs w \<and> spawned w1 = spawned w"
        by simp
      show ?thesis
      proof (cases r1)
        case (Some e1)
        with "1.prems" Inl e ne p have "w' = w1"
          by (simp add: mkdir_parents.simps [of w c])
        with k1 show ?thesis by simp
      next
        case None
        with "1.prems" Inl e ne p have "mkdir_exist_ok w1 c = (r, w')"
          by (simp add: mkdir_parents.simps [of w c])
        from mkdir_exist_ok_keeps [OF this] k1 show ?thesis by simp
      qed
    next
      case False
      with "1.prems" Inl have "w' = w"
        by (cases e) (auto simp: mkdir_parents.simps [of w c] split: if_splits)
      then show ?thesis by simp
    qed
  qed
qed

lemma path_parent_mkdir_keeps:
  assumes "path_parent_mkdir w p = (r, w')"
  shows "resolve w' = resolve w" and "files w' = files w"
  using assms mkdir_parents_keeps
  by (auto simp: path_parent_mkdir_def split: sum.splits)

lemma path_mkdir_keeps:
  assumes "path_mkdir w p = (r, w')"
  shows "resolve w' = resolve w" and "files w' = files w" and "spawned w' = spawned w"
  using assms mkdir_parents_keeps
  by (auto simp: path_mkdir_def split: sum.splits)

lemma path_write_exists:
  assumes "path_write w p content enc = (None, w')"
  shows "path_exists w' p"
  using assms
  by (auto simp: path_write_def c_write_text_def c_write_bytes_def c_open_w_def
      path_exists_def c_exists_def split: sum.splits content.splits if_splits)

lemma is_safe_path_prefix:
  assumes "is_safe_path ts w p = (True, msg)"
  shows "\<exists>c. resolve w p = Inr c \<and> prefix (workspace_dir ts) c \<and>
             \<not> list_ex (\<lambda>r. prefix r c) (restricted_paths ts)"
  using assms
  by (auto simp: is_safe_path_def find_None_iff list_ex_iff
      split: sum.splits option.splits if_splits)

lemmas fs_eval =
  example_world_def lexical_resolve_def str_split_def default_server_def ToolServer_def
  default_restricted_paths_def default_simple_server_def SimpleToolServer_def
  path_parent_mkdir_def path_mkdir_def path_write_def path_exists_def path_is_dir_def
  path_is_file_def path_stat_def path_read_text_def path_read_bytes_def path_iterdir_def
  c_exists_def c_is_dir_def c_is_file_def c_stat_def c_write_text_def c_write_bytes_def
  c_open_w_def c_read_text_def c_read_bytes_def c_iterdir_def codec_known_def parent_of_def
  mkdir_parents.simps mkdir_exist_ok_def os_mkdir_def path_join_def sublist_code
  EEXIST_def ENOENT_def ENOTDIR_def EISDIR_def EACCES_def errno_msg_def squote_def

lemma big_content_len: "length big_content = 10485761"
  by (simp add: big_content_def)

section \<open>Writing files\<close>

text \<open>
  C10.  The \<open>created\<close> flag of a successful \<open>write_file\<close> is \<open>not file_path.exists()\<close>,
  asked after the file has been written: it is false for every successful write,
  also when the file did not exist before.
\<close>

theorem created_flag_always_false:
  assumes "fst (write_file ts w path content encoding) = Write_ok p n created"
  shows "\<not> created"
proof -
  from assms obtain msg w1 w2
    where "is_safe_path ts w path = (True, msg)"
      and "path_parent_mkdir w path = (None, w1)"
      and wr: "path_write w1 path content (Some encoding) = (None, w2)"
      and cr: "created = (\<not> path_exists w2 path)"
    by (auto simp: write_file_def split: prod.splits bool.splits option.splits if_splits)
  from path_write_exists [OF wr] cr show ?thesis
    by simp
qed

theorem created_flag_always_false_witness:
  "files example_world ''/workspace/new.txt'' = None \<and>
   fst (write_file default_server example_world ''/workspace/new.txt'' (Str ''x'') ''utf-8'')
     = Write_ok ''/workspace/new.txt'' 1 False"
proof -
  have r: "resolve example_world ''/workspace/new.txt'' = Inr ''/workspace/new.txt''"
    by (simp add: fs_eval)
  have s: "is_safe_path default_server example_world ''/workspace/new.txt'' = (True, ''OK'')"
    by (simp add: is_safe_path_def r) (simp add: fs_eval)
  have m: "path_parent_mkdir example_world ''/workspace/new.txt'' = (None, example_world)"
    by (simp add: path_parent_mkdir_def r) (simp add: fs_eval)
  have f: "files example_world ''/workspace/new.txt'' = None"
    by (simp add: fs_eval)
  have e: "fst (write_file default_server example_world ''/workspace/new.txt''
                  (Str ''x'') ''utf-8'') = Write_ok ''/workspace/new.txt'' 1 False"
    by (simp add: write_file_def s m) (simp add: fs_eval)
  from created_flag_always_false [OF e] e f show ?thesis
    by simp
qed

text \<open>
  C7, for the full server.  Content longer than \<open>max_file_size\<close> is never written: the
  result is an error and the files of the world are the ones before the call.  (The
  parent directories of the target may have been made: \<open>mkdir\<close> stands before the size
  test.)
\<close>

theorem oversized_write_rejected:
  assumes "content_len content > max_file_size ts"
  shows "(\<exists>msg. fst (write_file ts w path content encoding) = Write_error msg) \<and>
         files (snd (write_file ts w path content encoding)) = files w"
  using assms path_parent_mkdir_keeps(2) [of w path]
  by (auto simp: write_file_def split: prod.splits bool.splits option.splits)

theorem oversized_write_rejected_witness:
  "max_file_size default_server < content_len (Str big_content) \<and>
   (\<exists>msg. fst (write_file default_server example_world ''/workspace/big.txt''
                 (Str big_content) ''utf-8'') = Write_error msg) \<and>
   files (snd (write_file default_server example_world ''/workspace/big.txt''
                 (Str big_content) ''utf-8'')) ''/workspace/big.txt'' = None"
proof -
  have a: "max_file_size default_server < content_len (Str big_content)"
    by (simp add: big_content_len default_server_def ToolServer_def)
  have f: "files example_world ''/workspace/big.txt'' = None"
    by (simp add: fs_eval)
  from oversized_write_rejected [OF a, of example_world "''/workspace/big.txt''" "''utf-8''"] a f
  show ?thesis
    by simp
qed

text \<open>
  C7 fails on the simplified server, whose \<open>write_file\<close> tests no size: a text longer
  than the full server's limit is written.
\<close>

theorem oversized_write_counterexample:
  "max_file_size default_server < length big_content \<and>
   files example_world ''/workspace/big.txt'' = None \<and>
   fst (simple_write_file default_simple_server example_world ''/workspace/big.txt'' big_content)
     = Inr (SWrite_ok ''/workspace/big.txt'') \<and>
   files (snd (simple_write_file default_simple_server example_world ''/workspace/big.txt''
                 big_content)) ''/workspace/big.txt'' = Some big_content"
proof -
  have a: "max_file_size default_server < length big_content"
    by (simp add: big_content_len default_server_def ToolServer_def)
  have f: "files example_world ''/workspace/big.txt'' = None"
    by (simp add: fs_eval)
  have r: "resolve example_world ''/workspace/big.txt'' = Inr ''/workspace/big.txt''"
    by (simp add: fs_eval)
  have b: "fst (simple_write_file default_simple_server example_world ''/workspace/big.txt''
                  big_content) = Inr (SWrite_ok ''/workspace/big.txt'')"
    by (simp add: simple_write_file_def r) (simp add: fs_eval)
  have c: "files (snd (simple_write_file default_simple_server example_world
                  ''/workspace/big.txt'' big_content)) ''/workspace/big.txt'' = Some big_content"
    by (simp add: simple_write_file_def r) (simp add: fs_eval)
  show ?thesis
    by (intro conjI a f b c)
qed

text \<open>
  C1 fails on the code.  Both servers test \<open>str(resolved).startswith(workspace)\<close>, a test
  on characters: \<open>/workspace2/secret.txt\<close> is not under \<open>/workspace\<close>, the guard
  accepts it, and \<open>write_file\<close> makes the directory \<open>/workspace2\<close> and the file in it.
\<close>

theorem write_outside_workspace_accepted:
  "resolve example_world ''/workspace2/secret.txt'' = Inr ''/workspace2/secret.txt'' \<and>
   \<not> is_under (workspace_dir default_server) ''/workspace2/secret.txt'' \<and>
   files example_world ''/workspace2/secret.txt'' = None \<and>
   is_safe_path default_server example_world ''/workspace2/secret.txt'' = (True, ''OK'') \<and>
   fst (write_file default_server example_world ''/workspace2/secret.txt'' (Str ''x'') ''utf-8'')
     = Write_ok ''/workspace2/secret.txt'' 1 False \<and>
   files (snd (write_file default_server example_world ''/workspace2/secret.txt''
                 (Str ''x'') ''utf-8'')) ''/workspace2/secret.txt'' = Some ''x'' \<and>
   fst (simple_write_file default_simple_server example_world ''/workspace2/secret.txt'' ''x'')
     = Inr (SWrite_ok ''/workspace2/secret.txt'') \<and>
   files (snd (simple_write_file default_simple_server example_world
                 ''/workspace2/secret.txt'' ''x'')) ''/workspace2/secret.txt'' = Some ''x''"
proof -
  have r: "resolve example_world ''/workspace2/secret.txt'' = Inr ''/workspace2/secret.txt''"
    by (simp add: fs_eval)
  have u: "\<not> is_under (workspace_dir default_server) ''/workspace2/secret.txt''"
    by (simp add: is_under_def fs_eval)
  have f: "files example_world ''/workspace2/secret.txt'' = None"
    by (simp add: fs_eval)
  have s: "is_safe_path default_server example_world ''/workspace2/secret.txt'' = (True, ''OK'')"
    by (simp add: is_safe_path_def r) (simp add: fs_eval)
  have m: "path_parent_mkdir example_world ''/workspace2/secret.txt'' =
             (None, example_world\<lparr>dirs := insert ''/workspace2'' (dirs example_world)\<rparr>)"
    by (simp add: path_parent_mkdir_def r) (simp add: fs_eval)
  have w1: "fst (write_file default_server example_world ''/workspace2/secret.txt''
                   (Str ''x'') ''utf-8'') = Write_ok ''/workspace2/secret.txt'' 1 False"
    by (simp add: write_file_def s m) (simp add: fs_eval)
  have w2: "files (snd (write_file default_server example_world ''/workspace2/secret.txt''
                   (Str ''x'') ''utf-8'')) ''/workspace2/secret.txt'' = Some ''x''"
    by (simp add: write_file_def s m) (simp add: fs_eval)
  have s1: "fst (simple_write_file default_simple_server example_world
                   ''/workspace2/secret.txt'' ''x'') = Inr (SWrite_ok ''/workspace2/secret.txt'')"
    by (simp add: simple_write_file_def r) (simp add: fs_eval)
  have s2: "files (snd (simple_write_file default_simple_server example_world
                   ''/workspace2/secret.txt'' ''x'')) ''/workspace2/secret.txt'' = Some ''x''"
    by (simp add: simple_write_file_def r) (simp add: fs_eval)
  show ?thesis
    by (intro conjI r u f s w1 w2 s1 s2)
qed

section \<open>Reading files\<close>





section \<open>Running commands: properties\<close>

text \<open>
  C5 fails on the code.  \<open>execute\<close> makes the working directory before its \<open>try\<close>
  block: when the directory asked for is an existing regular file inside the workspace,
  \<open>mkdir\<close> raises \<open>FileExistsError\<close> and the exception leaves \<open>execute\<close>, in the full
  server and in the simplified one, whatever the process runner is.
\<close>

theorem execute_raises:
  "is_safe_command default_server ''ls'' = (True, ''OK'') \<and>
   is_safe_path default_server example_world ''/workspace/notes.txt'' = (True, ''OK'') \<and>
   fst (execute default_server run example_world ''ls'' (Some ''/workspace/notes.txt'') None)
     = Inl (EEXIST ''/workspace/notes.txt'') \<and>
   fst (simple_execute default_simple_server run example_world ''ls''
          (Some ''/workspace/notes.txt'') None)
     = Inl (EEXIST ''/workspace/notes.txt'')"
proof -
  have l: "lower ''ls'' = ''ls''"
    by code_simp
  have c: "is_safe_command default_server ''ls'' = (True, ''OK'')"
    by (simp add: guard_eval l)
  have c': "simple_is_safe_command default_simple_server ''ls''"
    by (simp add: guard_eval l)
  have r: "resolve example_world ''/workspace/notes.txt'' = Inr ''/workspace/notes.txt''"
    by (simp add: fs_eval)
  have s: "is_safe_path default_server example_world ''/workspace/notes.txt'' = (True, ''OK'')"
    by (simp add: is_safe_path_def r) (simp add: fs_eval)
  have m: "path_mkdir example_world ''/workspace/notes.txt'' =
             (Some (EEXIST ''/workspace/notes.txt''), example_world)"
    by (simp add: path_mkdir_def r) (simp add: fs_eval)
  have e: "fst (execute default_server run example_world ''ls'' (Some ''/workspace/notes.txt'') None)
             = Inl (EEXIST ''/workspace/notes.txt'')"
    by (simp add: execute_def c s m)
  have e': "fst (simple_execute default_simple_server run example_world ''ls''
                   (Some ''/workspace/notes.txt'') None)
              = Inl (EEXIST ''/workspace/notes.txt'')"
    by (simp add: simple_execute_def c' m)
  show ?thesis
    by (intro conjI c s e e')
qed

lemma accepted_command_spawns:
  assumes "is_safe_command ts command = (True, msg)"
  shows "spawned (snd (execute ts run w command None t)) =
           spawned w @ [(command, workspace_dir ts)]"
  using assms
  by (auto simp: execute_def run_command_def subprocess_run_def
      split: prod.splits proc_outcome.splits)

text \<open>
  C6, as the code has it.  A command the guard rejects is never run: the world, and
  with it the log of spawned processes, is the one before the call.  The full server
  answers with return code 1 and the reason after \<open>Security violation:\<close>; the simplified
  server answers with return code -1 and the fixed text \<open>Command not allowed\<close>.
\<close>

theorem rejected_command_not_run:
  "(is_safe_command ts command = (False, reason) \<longrightarrow>
      execute ts run w command wd t =
        (Inr \<lparr> success = False, stdout = [], stderr = ''Security violation: '' @ reason,
               return_code = 1, working_dir = None \<rparr>, w)) \<and>
   (\<not> simple_is_safe_command ss command \<longrightarrow>
      simple_execute ss run w command wd t =
        (Inr \<lparr> success = False, stdout = [], stderr = ''Command not allowed'',
               return_code = - 1, working_dir = None \<rparr>, w))"
  by (simp add: execute_def simple_execute_def)

theorem rejected_command_not_run_witness:
  "is_safe_command default_server ''rm -rf /'' =
     (False, ''Command contains dangerous pattern: rm -rf /'') \<and>
   execute default_server quiet_runner example_world ''rm -rf /'' None None =
     (Inr \<lparr> success = False, stdout = [],
            stderr = ''Security violation: Command contains dangerous pattern: rm -rf /'',
            return_code = 1, working_dir = None \<rparr>, example_world) \<and>
   spawned (snd (execute default_server quiet_runner example_world ''rm -rf /'' None None)) = []"
proof -
  have l: "lower ''rm -rf /'' = ''rm -rf /''"
    by code_simp
  have c: "is_safe_command default_server ''rm -rf /'' =
             (False, ''Command contains dangerous pattern: rm -rf /'')"
    by (simp add: guard_eval l)
  have s: "spawned example_world = []"
    by (simp add: example_world_def)
  from rejected_command_not_run
    [of default_server "''rm -rf /''" "''Command contains dangerous pattern: rm -rf /''"
        quiet_runner example_world None None] c s
  show ?thesis
    by simp
qed

text \<open>
  C6 as stated fails on the simplified server: the rejected \<open>rm -rf /\<close> gives return
  code -1, not 1.
\<close>

theorem rejected_exit_code_counterexample:
  "\<not> simple_is_safe_command default_simple_server ''rm -rf /'' \<and>
   fst (simple_execute default_simple_server quiet_runner example_world ''rm -rf /'' None None) =
     Inr \<lparr> success = False, stdout = [], stderr = ''Command not allowed'',
           return_code = - 1, working_dir = None \<rparr>"
proof -
  have l: "lower ''rm -rf /'' = ''rm -rf /''"
    by code_simp
  have c: "\<not> simple_is_safe_command default_simple_server ''rm -rf /''"
    by (simp add: guard_eval l)
  then have e: "fst (simple_execute default_simple_server quiet_runner example_world
                       ''rm -rf /'' None None) =
                 Inr \<lparr> success = False, stdout = [], stderr = ''Command not allowed'',
                       return_code = - 1, working_dir = None \<rparr>"
    by (simp add: simple_execute_def)
  show ?thesis
    by (intro conjI c e)
qed

section \<open>Listing a directory\<close>

lemma entry_key_le:
  "entry_key x \<le> entry_key y \<longleftrightarrow>
     (e_type x \<noteq> ''directory'' \<and> e_type y = ''directory'') \<or>
     ((e_type x = ''directory'') = (e_type y = ''directory'') \<and> e_name x \<le> e_name y)"
  by (auto simp: entry_key_def less_eq_prod_def)

lemma sorted_key_partition:
  assumes "sorted (map entry_key xs)"
  shows "xs = filter (\<lambda>x. e_type x \<noteq> ''directory'') xs @
              filter (\<lambda>x. e_type x = ''directory'') xs \<and>
         sorted (map e_name (filter (\<lambda>x. e_type x \<noteq> ''directory'') xs)) \<and>
         sorted (map e_name (filter (\<lambda>x. e_type x = ''directory'') xs))"
  using assms
proof (induction xs)
  case Nil
  show ?case by simp
next
  case (Cons x xs)
  from Cons.prems have le: "\<And>y. y \<in> set xs \<Longrightarrow> entry_key x \<le> entry_key y"
    and srt: "sorted (map entry_key xs)"
    by auto
  note ih = Cons.IH [OF srt]
  show ?case
  proof (cases "e_type x = ''directory''")
    case True
    with le have all: "\<And>y. y \<in> set xs \<Longrightarrow> e_type y = ''directory'' \<and> e_name x \<le> e_name y"
      by (auto simp: entry_key_le)
    then have "filter (\<lambda>x. e_type x \<noteq> ''directory'') xs = []"
      by (auto simp: filter_empty_conv)
    with True ih all show ?thesis
      by auto
  next
    case False
    with le have "\<And>y. y \<in> set xs \<Longrightarrow> e_type y \<noteq> ''directory'' \<Longrightarrow> e_name x \<le> e_name y"
      by (auto simp: entry_key_le)
    with False ih show ?thesis
      by auto
  qed
qed

lemma set_map_filter_iff:
  "x \<in> set (List.map_filter f xs) \<longleftrightarrow> (\<exists>y \<in> set xs. f y = Some x)"
  by (induction xs) (auto split: option.splits)

lemma entry_of_Some:
  assumes "entry_of ts w d nm = Some x"
  shows "e_name x = nm \<and> (\<exists>st. path_stat w (path_join d nm) = Inr st)"
  using assms
  by (auto simp: entry_of_def Let_def split: sum.splits)

lemma entry_of_kept:
  assumes "path_stat w (path_join d nm) = Inr st"
    and "relative_to (path_join d nm) (workspace_dir ts) = Inr rel"
  shows "\<exists>x. entry_of ts w d nm = Some x \<and> e_name x = nm"
  using assms by (simp add: entry_of_def Let_def)

lemma path_iterdir_dir:
  assumes "path_iterdir w d = Inr names"
  shows "path_exists w d \<and> path_is_dir w d"
  using assms
  by (auto simp: path_iterdir_def c_iterdir_def path_exists_def path_is_dir_def c_exists_def
      c_is_dir_def split: sum.splits if_splits)

text \<open>
  C9, as the code has it.  When the directory can be listed, \<open>list_directory\<close> succeeds
  with the entries in the order of the key (is-directory, name): the entries that are
  not directories come first and the directories after them, each group in the order
  of the names (by code point).  A name whose \<open>stat\<close> raises is left out, the others
  (whose path is under the workspace) are kept, and the listing is not aborted.
\<close>

theorem list_directory_order:
  assumes "list_target ts w path = Inr d" and "path_iterdir w d = Inr names"
    and "fs = sort_key entry_key (List.map_filter (entry_of ts w d) names)"
  shows "list_directory ts w path = List_ok d fs (length fs) \<and>
         sorted (map entry_key fs) \<and>
         fs = filter (\<lambda>x. e_type x \<noteq> ''directory'') fs @
              filter (\<lambda>x. e_type x = ''directory'') fs \<and>
         sorted (map e_name (filter (\<lambda>x. e_type x \<noteq> ''directory'') fs)) \<and>
         sorted (map e_name (filter (\<lambda>x. e_type x = ''directory'') fs)) \<and>
         e_name ` set fs \<subseteq> set names \<and>
         (\<forall>nm e. path_stat w (path_join d nm) = Inl e \<longrightarrow> nm \<notin> e_name ` set fs) \<and>
         (\<forall>nm st rel. nm \<in> set names \<and> path_stat w (path_join d nm) = Inr st \<and>
              relative_to (path_join d nm) (workspace_dir ts) = Inr rel \<longrightarrow>
            nm \<in> e_name ` set fs)"
proof -
  have srt: "sorted (map entry_key fs)"
    unfolding assms(3) by (rule sorted_sort_key)
  have st: "set fs = {x. \<exists>nm \<in> set names. entry_of ts w d nm = Some x}"
    unfolding assms(3) by (auto simp: set_map_filter_iff)
  have 1: "list_directory ts w path = List_ok d fs (length fs)"
    using assms path_iterdir_dir [OF assms(2)]
    by (simp add: list_directory_def Let_def)
  have 2: "e_name ` set fs \<subseteq> set names"
    using st entry_of_Some by fastforce
  have 3: "nm \<notin> e_name ` set fs" if "path_stat w (path_join d nm) = Inl e" for nm e
  proof
    assume "nm \<in> e_name ` set fs"
    then obtain x nm' where "entry_of ts w d nm' = Some x" and "e_name x = nm"
      using st by auto
    with entry_of_Some [of ts w d nm' x] that show False
      by auto
  qed
  have 4: "nm \<in> e_name ` set fs"
    if "nm \<in> set names" "path_stat w (path_join d nm) = Inr st'"
      "relative_to (path_join d nm) (workspace_dir ts) = Inr rel" for nm st' rel
  proof -
    from entry_of_kept [OF that(2,3)] obtain x
      where "entry_of ts w d nm = Some x" and "e_name x = nm"
      by blast
    with that(1) st show ?thesis
      by force
  qed
  from 1 srt sorted_key_partition [OF srt] 2 3 4 show ?thesis
    by blast
qed

lemmas list_eval =
  list_directory_def list_target_def entry_of_def entry_key_def relative_to_def
  map_filter_def less_eq_prod_def less_prod_def

lemma perm_644: "last3 (oct_str 33188) = ''644''"
  by (simp add: last3_def oct_str_def digits_of.simps digit_char_def)

lemma perm_755: "last3 (oct_str 16877) = ''755''"
  by (simp add: last3_def oct_str_def digits_of.simps digit_char_def)

lemma example_listing:
  "list_directory default_server example_world None =
     List_ok ''/workspace''
       [\<lparr> e_name = ''notes.txt'', e_type = ''file'', e_size = 5, e_modified = 0,
           e_permissions = ''644'', e_path = ''notes.txt'' \<rparr>,
        \<lparr> e_name = ''docs'', e_type = ''directory'', e_size = 0, e_modified = 0,
           e_permissions = ''755'', e_path = ''docs'' \<rparr>] 2"
  by (simp add: list_eval fs_eval perm_644 perm_755)

theorem list_directory_order_witness:
  "list_target default_server example_world None = Inr ''/workspace'' \<and>
   path_iterdir example_world ''/workspace'' = Inr [''docs'', ''ghost'', ''notes.txt''] \<and>
   path_stat example_world (path_join ''/workspace'' ''ghost'') = Inl (ENOENT ''/workspace/ghost'') \<and>
   ''ghost'' \<notin> e_name ` set (l_files (list_directory default_server example_world None)) \<and>
   map e_name (l_files (list_directory default_server example_world None)) =
     [''notes.txt'', ''docs'']"
proof -
  have t: "list_target default_server example_world None = Inr ''/workspace''"
    by (simp add: list_target_def fs_eval)
  have i: "path_iterdir example_world ''/workspace'' = Inr [''docs'', ''ghost'', ''notes.txt'']"
    by (simp add: fs_eval)
  have g: "path_stat example_world (path_join ''/workspace'' ''ghost'') =
             Inl (ENOENT ''/workspace/ghost'')"
    by (simp add: fs_eval)
  define fs where "fs = sort_key entry_key
      (List.map_filter (entry_of default_server example_world ''/workspace'')
         [''docs'', ''ghost'', ''notes.txt''])"
  from list_directory_order [OF t i fs_def] g
  have l: "list_directory default_server example_world None = List_ok ''/workspace'' fs (length fs)"
    and n: "''ghost'' \<notin> e_name ` set fs"
    by blast+
  from l n have a: "''ghost'' \<notin> e_name ` set (l_files (list_directory default_server example_world None))"
    by simp
  have b: "map e_name (l_files (list_directory default_server example_world None)) =
             [''notes.txt'', ''docs'']"
    by (simp add: example_listing)
  show ?thesis
    by (intro conjI t i g a b)
qed

text \<open>
  C9 as stated fails: in the workspace of the example the file \<open>notes.txt\<close> is listed
  before the directory \<open>docs\<close>.
\<close>

theorem list_directory_files_first_counterexample:
  "map e_name (l_files (list_directory default_server example_world None)) =
     [''notes.txt'', ''docs''] \<and>
   map e_type (l_files (list_directory default_server example_world None)) =
     [''file'', ''directory'']"
  by (simp add: example_listing)

end
